theory Spec2Isabelle
  imports Complex_Main
begin

section \<open>Animation Selector (Player.js)\<close>

text \<open>
  The part of the \<open>Player\<close> object that \<open>updateAnimation\<close> reads and writes.
  States and directions are JavaScript strings in the source and stay strings here.
  \<open>spritePlayed\<close> is the sequence of keys handed to \<open>this.sprite.play\<close>, oldest first:
  the only effect of the selector besides its two fields.
\<close>

record Player =
  currentState :: string
  currentDirection :: string
  isMoving :: bool
  spritePlayed :: "string list"

text \<open>The constructor's initial state; it ends with \<open>this.sprite.play('idle-down')\<close>.\<close>

definition newPlayer :: Player where
  "newPlayer = \<lparr>currentState = ''idle'', currentDirection = ''down'', isMoving = False,
                 spritePlayed = [''idle-down'']\<rparr>"

text \<open>
  Lines 311--331 of \<open>updateAnimation\<close>: the locals \<open>newDirection\<close> and \<open>newState\<close>,
  each with the source's initial value and the source's chain of branches.
\<close>

definition newDirection :: "Player \<Rightarrow> bool \<Rightarrow> bool \<Rightarrow> bool \<Rightarrow> bool \<Rightarrow> string" where
  "newDirection p left right up down =
     (if left \<or> right \<or> up \<or> down then
        (if left then ''left''
         else if right then ''right''
         else if up then ''up''
         else if down then ''down''
         else currentDirection p)
      else currentDirection p)"

definition newState :: "bool \<Rightarrow> bool \<Rightarrow> bool \<Rightarrow> bool \<Rightarrow> bool \<Rightarrow> string" where
  "newState left right up down isRunning =
     (if left \<or> right \<or> up \<or> down then (if isRunning then ''run'' else ''walk'')
      else ''idle'')"

text \<open>The template string \<open>`${newState}-${newDirection}`\<close>.\<close>

definition animationKey :: "string \<Rightarrow> string \<Rightarrow> string" where
  "animationKey st dir = st @ ''-'' @ dir"

text \<open>Lines 339--351: the guarded state change and the call of \<open>sprite.play\<close>.\<close>

definition Player_updateAnimation :: "Player \<Rightarrow> bool \<Rightarrow> bool \<Rightarrow> bool \<Rightarrow> bool \<Rightarrow> bool \<Rightarrow> Player" where
  "Player_updateAnimation p left right up down isRunning =
     (let nd = newDirection p left right up down;
          ns = newState left right up down isRunning
      in if ns \<noteq> currentState p \<or> nd \<noteq> currentDirection p
         then p\<lparr>currentState := ns, currentDirection := nd,
                spritePlayed := spritePlayed p @ [animationKey ns nd]\<rparr>
         else p)"

text \<open>
  The specification's wording of the direction rule, for comparison with the code: the
  first flag that is set, in the order left, right, up, down, and the previous direction
  when none is.
\<close>

definition spec_direction :: "string \<Rightarrow> bool \<Rightarrow> bool \<Rightarrow> bool \<Rightarrow> bool \<Rightarrow> string" where
  "spec_direction prev left right up down =
     (case List.find fst [(left, ''left''), (right, ''right''), (up, ''up''), (down, ''down'')] of
        Some (_, d) \<Rightarrow> d
      | None \<Rightarrow> prev)"

section \<open>Frame Generator (SpriteGenerator.js)\<close>

text \<open>
  JavaScript numbers are modelled as real numbers (the products with 1.3 and 1.5 and the
  sine are exact here, where the source rounds to doubles); loop counters and array
  indices are integers. The canvas context is the current \<open>fillStyle\<close> and the sequence
  of drawing commands issued so far, oldest first. \<open>fillRect\<close> paints with the
  \<open>fillStyle\<close> current at the call.
\<close>

datatype canvas_op =
    ClearRect real real real real
  | FillRect int int int int string

record ctx =
  fillStyle :: string
  drawn :: "canvas_op list"

definition clearRect :: "ctx \<Rightarrow> real \<Rightarrow> real \<Rightarrow> real \<Rightarrow> real \<Rightarrow> ctx" where
  "clearRect c x y w h = c\<lparr>drawn := drawn c @ [ClearRect x y w h]\<rparr>"

definition fillRect :: "ctx \<Rightarrow> int \<Rightarrow> int \<Rightarrow> int \<Rightarrow> int \<Rightarrow> ctx" where
  "fillRect c x y w h = c\<lparr>drawn := drawn c @ [FillRect x y w h (fillStyle c)]\<rparr>"

record palette =
  skin :: string
  skinShadow :: string
  hair :: string
  hairHighlight :: string
  shirt :: string
  shirtShadow :: string
  pants :: string
  pantsShadow :: string
  shoes :: string
  outline :: string
  eyes :: string

record SpriteGenerator =
  frameWidth :: real
  frameHeight :: real
  framesPerRow :: real
  totalRows :: real
  colors :: palette

text \<open>The constructor.\<close>

definition new_SpriteGenerator :: SpriteGenerator where
  "new_SpriteGenerator =
     \<lparr>frameWidth = 32, frameHeight = 32, framesPerRow = 6, totalRows = 12,
      colors = \<lparr>skin = ''#f4c99b'', skinShadow = ''#d4a574'', hair = ''#4a3728'',
                hairHighlight = ''#5c4333'', shirt = ''#3498db'', shirtShadow = ''#2980b9'',
                pants = ''#2c3e50'', pantsShadow = ''#1a252f'', shoes = ''#8b4513'',
                outline = ''#2c2c2c'', eyes = ''#2c2c2c''\<rparr>\<rparr>"

definition drawPixelRect :: "ctx \<Rightarrow> real \<Rightarrow> real \<Rightarrow> int \<Rightarrow> int \<Rightarrow> string \<Rightarrow> ctx" where
  "drawPixelRect c x y width height color =
     fillRect (c\<lparr>fillStyle := color\<rparr>) \<lfloor>x\<rfloor> \<lfloor>y\<rfloor> width height"

definition drawPixel :: "ctx \<Rightarrow> real \<Rightarrow> real \<Rightarrow> string \<Rightarrow> ctx" where
  "drawPixel c x y color = fillRect (c\<lparr>fillStyle := color\<rparr>) \<lfloor>x\<rfloor> \<lfloor>y\<rfloor> 1 1"

subsection \<open>Leg positions\<close>

text \<open>
  An array read \<open>xs[i]\<close> is \<open>undefined\<close> (\<open>None\<close>) outside the array; \<open>a || b\<close> on
  values that are objects or \<open>undefined\<close> is \<open>a\<close> when \<open>a\<close> is an object and \<open>b\<close>
  otherwise; reading a property of \<open>undefined\<close> throws a \<open>TypeError\<close>.
\<close>

datatype js_error = TypeError

record legs =
  leftX :: real
  rightX :: real
  leftY :: real
  rightY :: real

definition js_index :: "'a list \<Rightarrow> int \<Rightarrow> 'a option" where
  "js_index xs i = (if 0 \<le> i \<and> i < int (length xs) then Some (xs ! nat i) else None)"

definition js_or :: "'a option \<Rightarrow> 'a option \<Rightarrow> 'a option" where
  "js_or a b = (case a of Some v \<Rightarrow> Some v | None \<Rightarrow> b)"

definition walkCycle :: "legs list" where
  "walkCycle =
     [\<lparr>leftX = -2, rightX = 2, leftY = 0, rightY = 0\<rparr>,
      \<lparr>leftX = -3, rightX = 3, leftY = -1, rightY = 1\<rparr>,
      \<lparr>leftX = -4, rightX = 4, leftY = 0, rightY = 0\<rparr>,
      \<lparr>leftX = -2, rightX = 2, leftY = 0, rightY = 0\<rparr>,
      \<lparr>leftX = -1, rightX = 1, leftY = 1, rightY = -1\<rparr>,
      \<lparr>leftX = -4, rightX = 4, leftY = 0, rightY = 0\<rparr>]"

definition calculateLegPositions :: "string \<Rightarrow> int \<Rightarrow> js_error + legs" where
  "calculateLegPositions action frame =
     (if action = ''idle'' then Inr \<lparr>leftX = -2, rightX = 2, leftY = 0, rightY = 0\<rparr>
      else
        (case js_or (js_index walkCycle frame) (js_index walkCycle 0) of
           None \<Rightarrow> Inl TypeError
         | Some positions \<Rightarrow>
             if action = ''run'' then
               Inr \<lparr>leftX = leftX positions * 1.3, rightX = rightX positions * 1.3,
                    leftY = leftY positions * 1.5, rightY = rightY positions * 1.5\<rparr>
             else Inr positions))"

subsection \<open>Body parts\<close>

definition drawLegs :: "SpriteGenerator \<Rightarrow> ctx \<Rightarrow> real \<Rightarrow> real \<Rightarrow> string \<Rightarrow> legs \<Rightarrow> ctx" where
  "drawLegs g c centerX baseY direction positions =
     (let legHeight = 8 in
      if direction = ''left'' \<or> direction = ''right'' then
        (let frontLegX = (if direction = ''left'' then leftX positions else rightX positions);
             backLegX = (if direction = ''left'' then rightX positions else leftX positions);
             c = drawPixelRect c (centerX + backLegX - 2) (baseY - real_of_int legHeight - 2)
                   3 legHeight (pantsShadow (colors g));
             c = drawPixelRect c (centerX + backLegX - 2) (baseY - 3) 3 3 (shoes (colors g));
             c = drawPixelRect c (centerX + frontLegX - 2) (baseY - real_of_int legHeight)
                   3 legHeight (pants (colors g));
             c = drawPixelRect c (centerX + frontLegX - 2) (baseY - 2) 3 2 (shoes (colors g))
         in c)
      else
        (let c = drawPixelRect c (centerX - 5) (baseY - real_of_int legHeight + leftY positions)
                   4 legHeight (pants (colors g));
             c = drawPixelRect c (centerX - 5) (baseY - 2 + leftY positions) 4 2 (shoes (colors g));
             c = drawPixelRect c (centerX + 1) (baseY - real_of_int legHeight + rightY positions)
                   4 legHeight (pants (colors g));
             c = drawPixelRect c (centerX + 1) (baseY - 2 + rightY positions) 4 2 (shoes (colors g))
         in c))"

definition drawBody :: "SpriteGenerator \<Rightarrow> ctx \<Rightarrow> real \<Rightarrow> real \<Rightarrow> string \<Rightarrow> ctx" where
  "drawBody g c centerX baseY direction =
     (let bodyTop = baseY - 18;
          c = drawPixelRect c (centerX - 5) bodyTop 10 10 (shirt (colors g))
      in if direction = ''left'' then
           drawPixelRect c (centerX + 2) bodyTop 3 10 (shirtShadow (colors g))
         else if direction = ''right'' then
           drawPixelRect c (centerX - 5) bodyTop 3 10 (shirtShadow (colors g))
         else
           drawPixelRect c (centerX - 5) (bodyTop + 7) 10 3 (shirtShadow (colors g)))"

definition drawArms :: "SpriteGenerator \<Rightarrow> ctx \<Rightarrow> real \<Rightarrow> real \<Rightarrow> string \<Rightarrow> string \<Rightarrow> int \<Rightarrow> ctx" where
  "drawArms g c centerX baseY direction action frame =
     (let armY = baseY - 16;
          armSwing =
            (if action = ''walk'' \<or> action = ''run'' then
               (let swingAmount = (if action = ''run'' then 3 else 2)
                in sin ((real_of_int frame / 6) * pi * 2) * swingAmount)
             else 0)
      in if direction = ''left'' then
           (let c = drawPixelRect c (centerX + 4) (armY + armSwing) 3 6 (shirt (colors g));
                c = drawPixelRect c (centerX + 4) (armY + 5 + armSwing) 3 2 (skin (colors g))
            in c)
         else if direction = ''right'' then
           (let c = drawPixelRect c (centerX - 7) (armY - armSwing) 3 6 (shirt (colors g));
                c = drawPixelRect c (centerX - 7) (armY + 5 - armSwing) 3 2 (skin (colors g))
            in c)
         else c)"

definition drawHead :: "SpriteGenerator \<Rightarrow> ctx \<Rightarrow> real \<Rightarrow> real \<Rightarrow> string \<Rightarrow> ctx" where
  "drawHead g c centerX baseY direction =
     (let headTop = baseY - 26;
          c = drawPixelRect c (centerX - 5) (headTop + 1) 10 7 (skin (colors g));
          c = drawPixelRect c (centerX - 4) headTop 8 1 (skin (colors g));
          c = drawPixelRect c (centerX - 4) (headTop + 8) 8 1 (skin (colors g))
      in if direction = ''left'' then
           drawPixelRect c (centerX + 3) (headTop + 1) 2 7 (skinShadow (colors g))
         else if direction = ''right'' then
           drawPixelRect c (centerX - 5) (headTop + 1) 2 7 (skinShadow (colors g))
         else c)"

definition drawFace :: "SpriteGenerator \<Rightarrow> ctx \<Rightarrow> real \<Rightarrow> real \<Rightarrow> ctx" where
  "drawFace g c centerX baseY =
     (let headTop = baseY - 26;
          c = drawPixel c (centerX - 3) (headTop + 3) (eyes (colors g));
          c = drawPixel c (centerX + 2) (headTop + 3) (eyes (colors g))
      in c)"

definition drawFaceSide :: "SpriteGenerator \<Rightarrow> ctx \<Rightarrow> real \<Rightarrow> real \<Rightarrow> string \<Rightarrow> ctx" where
  "drawFaceSide g c centerX baseY direction =
     (let headTop = baseY - 26;
          eyeX = (if direction = ''left'' then centerX - 3 else centerX + 2)
      in drawPixel c eyeX (headTop + 3) (eyes (colors g)))"

definition drawHairFront :: "SpriteGenerator \<Rightarrow> ctx \<Rightarrow> real \<Rightarrow> real \<Rightarrow> ctx" where
  "drawHairFront g c centerX baseY =
     (let headTop = baseY - 26;
          c = drawPixelRect c (centerX - 5) (headTop - 2) 10 3 (hair (colors g));
          c = drawPixelRect c (centerX - 4) (headTop - 3) 8 1 (hair (colors g));
          c = drawPixelRect c (centerX - 4) headTop 3 2 (hair (colors g));
          c = drawPixelRect c (centerX + 1) headTop 3 2 (hair (colors g));
          c = drawPixel c (centerX - 2) (headTop - 2) (hairHighlight (colors g))
      in c)"

definition drawHairBack :: "SpriteGenerator \<Rightarrow> ctx \<Rightarrow> real \<Rightarrow> real \<Rightarrow> ctx" where
  "drawHairBack g c centerX baseY =
     (let headTop = baseY - 26;
          c = drawPixelRect c (centerX - 5) (headTop - 2) 10 10 (hair (colors g));
          c = drawPixelRect c (centerX - 4) (headTop - 3) 8 1 (hair (colors g));
          c = drawPixel c centerX (headTop - 1) (hairHighlight (colors g))
      in c)"

definition drawHairSide :: "SpriteGenerator \<Rightarrow> ctx \<Rightarrow> real \<Rightarrow> real \<Rightarrow> string \<Rightarrow> ctx" where
  "drawHairSide g c centerX baseY direction =
     (let headTop = baseY - 26;
          c = drawPixelRect c (centerX - 5) (headTop - 2) 10 3 (hair (colors g));
          c = drawPixelRect c (centerX - 4) (headTop - 3) 8 1 (hair (colors g));
          c = (if direction = ''left'' then
                 drawPixelRect c (centerX + 3) headTop 2 5 (hair (colors g))
               else
                 drawPixelRect c (centerX - 5) headTop 2 5 (hair (colors g)));
          c = drawPixel c (centerX - 1) (headTop - 2) (hairHighlight (colors g))
      in c)"

subsection \<open>One frame\<close>

text \<open>
  \<open>drawCharacter\<close> stops with the error of \<open>calculateLegPositions\<close> before anything is
  drawn, as the exception would; otherwise it draws back to front.
\<close>

definition drawCharacter ::
  "SpriteGenerator \<Rightarrow> ctx \<Rightarrow> real \<Rightarrow> real \<Rightarrow> string \<Rightarrow> string \<Rightarrow> int \<Rightarrow> real \<Rightarrow> js_error + ctx" where
  "drawCharacter g c x y direction action frame offsetY =
     (let centerX = x + frameWidth g / 2;
          baseY = y + frameHeight g - 4 + offsetY
      in case calculateLegPositions action frame of
           Inl e \<Rightarrow> Inl e
         | Inr legPositions \<Rightarrow>
             if direction = ''up'' then
               (let c = drawLegs g c centerX baseY direction legPositions;
                    c = drawBody g c centerX baseY direction;
                    c = drawHead g c centerX baseY direction;
                    c = drawHairBack g c centerX baseY
                in Inr c)
             else if direction = ''down'' then
               (let c = drawLegs g c centerX baseY direction legPositions;
                    c = drawBody g c centerX baseY direction;
                    c = drawHead g c centerX baseY direction;
                    c = drawFace g c centerX baseY;
                    c = drawHairFront g c centerX baseY
                in Inr c)
             else
               (let c = drawLegs g c centerX baseY direction legPositions;
                    c = drawBody g c centerX baseY direction;
                    c = drawArms g c centerX baseY direction action frame;
                    c = drawHead g c centerX baseY direction;
                    c = drawFaceSide g c centerX baseY direction;
                    c = drawHairSide g c centerX baseY direction
                in Inr c))"

subsection \<open>The rows of the sheet\<close>

text \<open>
  Each generating loop runs over a grid of cells and calls \<open>drawCharacter\<close> once per
  cell. The cells are listed in the order the loops visit them (\<open>idleCalls\<close>,
  \<open>walkCalls\<close>, \<open>runCalls\<close>), each with the arguments the loop body computes from its
  locals (\<open>x\<close>, \<open>y\<close> and the vertical offset, which exists only inside the loop body), and
  \<open>drawCalls\<close> performs the calls in sequence, stopping at the first error.
\<close>

record drawCall =
  call_x :: real
  call_y :: real
  call_direction :: string
  call_action :: string
  call_frame :: int
  call_offsetY :: real

fun drawCalls :: "SpriteGenerator \<Rightarrow> drawCall list \<Rightarrow> ctx \<Rightarrow> js_error + ctx" where
  "drawCalls g [] c = Inr c"
| "drawCalls g (k # ks) c =
     (case drawCharacter g c (call_x k) (call_y k) (call_direction k) (call_action k)
             (call_frame k) (call_offsetY k) of
        Inl e \<Rightarrow> Inl e
      | Inr c' \<Rightarrow> drawCalls g ks c')"

definition directions :: "string list" where
  "directions = [''down'', ''left'', ''right'', ''up'']"

definition idleCalls :: "SpriteGenerator \<Rightarrow> drawCall list" where
  "idleCalls g =
     concat (map (\<lambda>(rowIndex, direction).
               map (\<lambda>frame.
                     (let x = real_of_int frame * frameWidth g;
                          y = real rowIndex * frameHeight g;
                          breathOffset = (if frame = 1 \<or> frame = 3 then -1 else 0)
                      in \<lparr>call_x = x, call_y = y, call_direction = direction,
                          call_action = ''idle'', call_frame = frame,
                          call_offsetY = breathOffset\<rparr>))
                   [0..3])
             (List.enumerate 0 directions))"

definition walkCalls :: "SpriteGenerator \<Rightarrow> drawCall list" where
  "walkCalls g =
     concat (map (\<lambda>(dirIndex, direction).
               (let rowIndex = 4 + dirIndex in
                map (\<lambda>frame.
                      (let x = real_of_int frame * frameWidth g;
                           y = real rowIndex * frameHeight g;
                           bounceOffset = (if frame = 0 \<or> frame = 3 then 0 else -1)
                       in \<lparr>call_x = x, call_y = y, call_direction = direction,
                           call_action = ''walk'', call_frame = frame,
                           call_offsetY = bounceOffset\<rparr>))
                    [0..5]))
             (List.enumerate 0 directions))"

definition runCalls :: "SpriteGenerator \<Rightarrow> drawCall list" where
  "runCalls g =
     concat (map (\<lambda>(dirIndex, direction).
               (let rowIndex = 8 + dirIndex in
                map (\<lambda>frame.
                      (let x = real_of_int frame * frameWidth g;
                           y = real rowIndex * frameHeight g;
                           bounceOffset = (if frame = 0 \<or> frame = 3 then 0 else -2)
                       in \<lparr>call_x = x, call_y = y, call_direction = direction,
                           call_action = ''run'', call_frame = frame,
                           call_offsetY = bounceOffset\<rparr>))
                    [0..5]))
             (List.enumerate 0 directions))"

definition generateIdleAnimations :: "SpriteGenerator \<Rightarrow> ctx \<Rightarrow> js_error + ctx" where
  "generateIdleAnimations g c = drawCalls g (idleCalls g) c"

definition generateWalkAnimations :: "SpriteGenerator \<Rightarrow> ctx \<Rightarrow> js_error + ctx" where
  "generateWalkAnimations g c = drawCalls g (walkCalls g) c"

definition generateRunAnimations :: "SpriteGenerator \<Rightarrow> ctx \<Rightarrow> js_error + ctx" where
  "generateRunAnimations g c = drawCalls g (runCalls g) c"

text \<open>
  A canvas element: its size and its 2D context. A new context has the default
  \<open>fillStyle\<close> and nothing drawn. \<open>generateSpritesheet\<close> returns the PNG encoding of the
  canvas; the model returns the canvas itself.
\<close>

record canvas =
  canvas_width :: real
  canvas_height :: real
  canvas_ctx :: ctx

definition new_ctx :: ctx where
  "new_ctx = \<lparr>fillStyle = ''#000000'', drawn = []\<rparr>"

definition generateSpritesheet :: "SpriteGenerator \<Rightarrow> js_error + canvas" where
  "generateSpritesheet g =
     (let w = frameWidth g * framesPerRow g;
          h = frameHeight g * totalRows g;
          c = clearRect new_ctx 0 0 w h
      in case generateIdleAnimations g c of
           Inl e \<Rightarrow> Inl e
         | Inr c \<Rightarrow>
             (case generateWalkAnimations g c of
                Inl e \<Rightarrow> Inl e
              | Inr c \<Rightarrow>
                  (case generateRunAnimations g c of
                     Inl e \<Rightarrow> Inl e
                   | Inr c \<Rightarrow> Inr \<lparr>canvas_width = w, canvas_height = h, canvas_ctx = c\<rparr>)))"

section \<open>The scene's copy of the generating loop (GameScene.generateAllFrames)\<close>

record sceneAnim =
  anim_row :: int
  anim_direction :: string
  anim_action :: string
  anim_frames :: int

definition sceneAnimations :: "sceneAnim list" where
  "sceneAnimations =
     [\<lparr>anim_row = 0, anim_direction = ''down'', anim_action = ''idle'', anim_frames = 4\<rparr>,
      \<lparr>anim_row = 1, anim_direction = ''left'', anim_action = ''idle'', anim_frames = 4\<rparr>,
      \<lparr>anim_row = 2, anim_direction = ''right'', anim_action = ''idle'', anim_frames = 4\<rparr>,
      \<lparr>anim_row = 3, anim_direction = ''up'', anim_action = ''idle'', anim_frames = 4\<rparr>,
      \<lparr>anim_row = 4, anim_direction = ''down'', anim_action = ''walk'', anim_frames = 6\<rparr>,
      \<lparr>anim_row = 5, anim_direction = ''left'', anim_action = ''walk'', anim_frames = 6\<rparr>,
      \<lparr>anim_row = 6, anim_direction = ''right'', anim_action = ''walk'', anim_frames = 6\<rparr>,
      \<lparr>anim_row = 7, anim_direction = ''up'', anim_action = ''walk'', anim_frames = 6\<rparr>,
      \<lparr>anim_row = 8, anim_direction = ''down'', anim_action = ''run'', anim_frames = 6\<rparr>,
      \<lparr>anim_row = 9, anim_direction = ''left'', anim_action = ''run'', anim_frames = 6\<rparr>,
      \<lparr>anim_row = 10, anim_direction = ''right'', anim_action = ''run'', anim_frames = 6\<rparr>,
      \<lparr>anim_row = 11, anim_direction = ''up'', anim_action = ''run'', anim_frames = 6\<rparr>]"

definition allFramesCalls :: "drawCall list" where
  "allFramesCalls =
     concat (map (\<lambda>anim.
               map (\<lambda>frame.
                     (let x = real_of_int frame * 32;
                          y = real_of_int (anim_row anim) * 32;
                          offsetY =
                            (if anim_action anim = ''idle'' then
                               (if frame = 1 \<or> frame = 3 then -1 else 0)
                             else if anim_action anim = ''walk'' then
                               (if frame = 0 \<or> frame = 3 then 0 else -1)
                             else if anim_action anim = ''run'' then
                               (if frame = 0 \<or> frame = 3 then 0 else -2)
                             else 0)
                      in \<lparr>call_x = x, call_y = y, call_direction = anim_direction anim,
                          call_action = anim_action anim, call_frame = frame,
                          call_offsetY = offsetY\<rparr>))
                   [0..anim_frames anim - 1])
             sceneAnimations)"

definition generateAllFrames :: "ctx \<Rightarrow> SpriteGenerator \<Rightarrow> js_error + ctx" where
  "generateAllFrames c generator = drawCalls generator allFramesCalls c"

section \<open>The specification's formulas, for comparison with the code\<close>

text \<open>
  The vertical pose offset as the specification words it: periodic in the frame index,
  with period 4 for idle and period 6 for walk and run.
\<close>

definition spec_verticalOffset :: "string \<Rightarrow> int \<Rightarrow> real" where
  "spec_verticalOffset action f =
     (if action = ''idle'' then (if f mod 4 = 1 \<or> f mod 4 = 3 then -1 else 0)
      else if action = ''walk'' then (if f mod 6 = 0 \<or> f mod 6 = 3 then 0 else -1)
      else (if f mod 6 = 0 \<or> f mod 6 = 3 then 0 else -2))"

section \<open>What a call draws\<close>

text \<open>
  What a call of a drawing operation adds to the canvas: the commands after those that
  were there before the call, or the error the call stopped with.
\<close>

definition emitted :: "ctx \<Rightarrow> js_error + ctx \<Rightarrow> js_error + canvas_op list" where
  "emitted c r =
     (case r of Inl e \<Rightarrow> Inl e | Inr c' \<Rightarrow> Inr (drop (length (drawn c)) (drawn c')))"

text \<open>The commands one call of \<open>drawCharacter\<close> issues on a new context.\<close>

definition characterOps ::
  "SpriteGenerator \<Rightarrow> real \<Rightarrow> real \<Rightarrow> string \<Rightarrow> string \<Rightarrow> int \<Rightarrow> real \<Rightarrow> canvas_op list" where
  "characterOps g x y direction action frame offsetY =
     drawn (projr (drawCharacter g new_ctx x y direction action frame offsetY))"

text \<open>The commands of one call of the generating loops.\<close>

definition callOps :: "SpriteGenerator \<Rightarrow> drawCall \<Rightarrow> canvas_op list" where
  "callOps g k =
     characterOps g (call_x k) (call_y k) (call_direction k) (call_action k) (call_frame k)
       (call_offsetY k)"

text \<open>
  A command paints within the pixel columns from \<open>x0\<close> up to but not including \<open>x1\<close> and
  the pixel rows from \<open>y0\<close> up to but not including \<open>y1\<close>. The band of the tile at
  \<open>(x, y)\<close> is the 32 columns of the tile and the pixel rows from three above the tile's
  top edge to its bottom edge.
\<close>

fun paintsWithin :: "int \<Rightarrow> int \<Rightarrow> int \<Rightarrow> int \<Rightarrow> canvas_op \<Rightarrow> bool" where
  "paintsWithin x0 y0 x1 y1 (FillRect x y w h color) =
     (x0 \<le> x \<and> x + w \<le> x1 \<and> y0 \<le> y \<and> y + h \<le> y1)"
| "paintsWithin x0 y0 x1 y1 (ClearRect x y w h) = False"

definition tileBand :: "real \<Rightarrow> real \<Rightarrow> canvas_op \<Rightarrow> bool" where
  "tileBand x y = paintsWithin \<lfloor>x\<rfloor> (\<lfloor>y\<rfloor> - 3) (\<lfloor>x\<rfloor> + 32) (\<lfloor>y\<rfloor> + 32)"

section \<open>Clip table (SpriteEditorConfig.js)\<close>

text \<open>
  An animation entry is a JavaScript object: a finite map from field names to values.
  The values the table holds are strings and integers. \<open>animation_entry\<close> is the object
  literal with the six fields of an entry.
\<close>

datatype jsval = Str string | Num int

type_synonym animation = "string \<rightharpoonup> jsval"

definition animation_entry :: "string \<Rightarrow> string \<Rightarrow> int \<Rightarrow> int \<Rightarrow> int \<Rightarrow> int \<Rightarrow> animation" where
  "animation_entry action direction row startFrame frameCount frameRate =
     [''action'' \<mapsto> Str action, ''direction'' \<mapsto> Str direction, ''row'' \<mapsto> Num row,
      ''startFrame'' \<mapsto> Num startFrame, ''frameCount'' \<mapsto> Num frameCount,
      ''frameRate'' \<mapsto> Num frameRate]"

record config =
  config_frameWidth :: int
  config_frameHeight :: int
  animations :: "animation list"

definition DEFAULT_ANIMATION_CONFIG :: config where
  "DEFAULT_ANIMATION_CONFIG =
     \<lparr>config_frameWidth = 32, config_frameHeight = 32,
      animations =
        [animation_entry ''idle'' ''down'' 0 0 4 4,
         animation_entry ''idle'' ''left'' 1 0 4 4,
         animation_entry ''idle'' ''right'' 2 0 4 4,
         animation_entry ''idle'' ''up'' 3 0 4 4,
         animation_entry ''walk'' ''down'' 4 0 6 8,
         animation_entry ''walk'' ''left'' 5 0 6 8,
         animation_entry ''walk'' ''right'' 6 0 6 8,
         animation_entry ''walk'' ''up'' 7 0 6 8,
         animation_entry ''run'' ''down'' 8 0 6 12,
         animation_entry ''run'' ''left'' 9 0 6 12,
         animation_entry ''run'' ''right'' 10 0 6 12,
         animation_entry ''run'' ''up'' 11 0 6 12]\<rparr>"

text \<open>The predicate \<open>a => a.action === action && a.direction === direction\<close>.\<close>

definition sameClip :: "string \<Rightarrow> string \<Rightarrow> animation \<Rightarrow> bool" where
  "sameClip action direction a =
     (a ''action'' = Some (Str action) \<and> a ''direction'' = Some (Str direction))"

definition getAnimation :: "config \<Rightarrow> string \<Rightarrow> string \<Rightarrow> animation option" where
  "getAnimation cfg action direction = List.find (sameClip action direction) (animations cfg)"

text \<open>
  \<open>Object.assign(anim, updates)\<close> changes, in place, the object that \<open>find\<close> returned:
  the first element of the array that satisfies the predicate. Every field of \<open>updates\<close>
  overwrites the field of the same name. The entries of a table are separate objects.
\<close>

fun assignFirst :: "(animation \<Rightarrow> bool) \<Rightarrow> animation \<Rightarrow> animation list \<Rightarrow> animation list" where
  "assignFirst P updates [] = []"
| "assignFirst P updates (a # as) =
     (if P a then (a ++ updates) # as else a # assignFirst P updates as)"

definition SpriteConfig_updateAnimation :: "config \<Rightarrow> string \<Rightarrow> string \<Rightarrow> animation \<Rightarrow> config" where
  "SpriteConfig_updateAnimation cfg action direction updates =
     (case List.find (sameClip action direction) (animations cfg) of
        Some anim \<Rightarrow>
          cfg\<lparr>animations := assignFirst (sameClip action direction) updates (animations cfg)\<rparr>
      | None \<Rightarrow>
          cfg\<lparr>animations := animations cfg @ [animation_entry action direction 0 0 4 8 ++ updates]\<rparr>)"

text \<open>A sequence of \<open>updateAnimation\<close> calls, each given by its three arguments.\<close>

fun updateAnimations :: "config \<Rightarrow> (string \<times> string \<times> animation) list \<Rightarrow> config" where
  "updateAnimations cfg [] = cfg"
| "updateAnimations cfg ((action, direction, updates) # calls) =
     updateAnimations (SpriteConfig_updateAnimation cfg action direction updates) calls"

definition rowOf :: "animation \<Rightarrow> jsval option" where
  "rowOf a = a ''row''"

definition rows :: "config \<Rightarrow> jsval option list" where
  "rows cfg = map rowOf (animations cfg)"

text \<open>
  The entry a call writes: the found entry with the updates assigned, or the new entry.
  A call keeps the rows apart when the row of the entry it writes is the row that entry
  had before or a row that no entry of the table has; a sequence of calls does when each
  call does on the table it meets.
\<close>

definition written :: "config \<Rightarrow> string \<Rightarrow> string \<Rightarrow> animation \<Rightarrow> animation" where
  "written cfg action direction updates =
     (case getAnimation cfg action direction of
        Some anim \<Rightarrow> anim ++ updates
      | None \<Rightarrow> animation_entry action direction 0 0 4 8 ++ updates)"

definition keepsRows :: "config \<Rightarrow> string \<Rightarrow> string \<Rightarrow> animation \<Rightarrow> bool" where
  "keepsRows cfg action direction updates =
     (let r = rowOf (written cfg action direction updates) in
      (case getAnimation cfg action direction of
         Some anim \<Rightarrow> r = rowOf anim \<or> r \<notin> set (rows cfg)
       | None \<Rightarrow> r \<notin> set (rows cfg)))"

fun allKeepRows :: "config \<Rightarrow> (string \<times> string \<times> animation) list \<Rightarrow> bool" where
  "allKeepRows cfg [] = True"
| "allKeepRows cfg ((action, direction, updates) # calls) =
     (keepsRows cfg action direction updates \<and>
      allKeepRows (SpriteConfig_updateAnimation cfg action direction updates) calls)"

text \<open>
  The layout of the sheet as the specification words it: for each row its action, its
  direction and its number of frames.
\<close>

definition spec_layout :: "(int \<times> string \<times> string \<times> int) list" where
  "spec_layout =
     [(0, ''idle'', ''down'', 4), (1, ''idle'', ''left'', 4),
      (2, ''idle'', ''right'', 4), (3, ''idle'', ''up'', 4),
      (4, ''walk'', ''down'', 6), (5, ''walk'', ''left'', 6),
      (6, ''walk'', ''right'', 6), (7, ''walk'', ''up'', 6),
      (8, ''run'', ''down'', 6), (9, ''run'', ''left'', 6),
      (10, ''run'', ''right'', 6), (11, ''run'', ''up'', 6)]"

section \<open>Verified properties\<close>

subsection \<open>Animation Selector\<close>

text \<open>
  Claim C1. For every previous state and every combination of the four direction flags,
  the direction the selector resolves is the first set flag in the order
  left, right, up, down, and the previous direction when no flag is set.
\<close>

theorem C1_direction_resolution:
  "newDirection p left right up down = spec_direction (currentDirection p) left right up down"
  by (simp add: newDirection_def spec_direction_def)

theorem C1_direction_resolution_witness:
  "newDirection newPlayer True False True True = ''left'' \<and>
   newDirection newPlayer False False False False = ''down''"
  using C1_direction_resolution [of newPlayer True False True True]
        C1_direction_resolution [of newPlayer False False False False]
  by (simp add: spec_direction_def newPlayer_def)

text \<open>
  Claim C2. With no direction flag set the resolved action is idle whatever the running
  modifier; with at least one flag set it is run when running and walk otherwise.
\<close>

theorem C2_action_resolution:
  "newState False False False False isRunning = ''idle'' \<and>
   (left \<or> right \<or> up \<or> down \<longrightarrow>
      newState left right up down isRunning = (if isRunning then ''run'' else ''walk''))"
  by (simp add: newState_def)

theorem C2_action_resolution_witness:
  "(True \<or> False \<or> True \<or> False) \<and> newState False False False False True = ''idle'' \<and>
   newState True False True False True = ''run''"
  using C2_action_resolution [of True True False True False] by simp

text \<open>
  Claim C3. The selector plays the clip \<open>newState-newDirection\<close> and stores the new pair
  exactly when the pair differs from the stored one; when the pair is the stored one
  nothing is played and nothing changes. A second call with the same input right after a
  first call plays nothing more.
\<close>

theorem C3_change_detection:
  "((newState left right up down isRunning, newDirection p left right up down)
       \<noteq> (currentState p, currentDirection p) \<longrightarrow>
      Player_updateAnimation p left right up down isRunning =
        p\<lparr>currentState := newState left right up down isRunning,
          currentDirection := newDirection p left right up down,
          spritePlayed := spritePlayed p @
            [newState left right up down isRunning @ ''-'' @ newDirection p left right up down]\<rparr>) \<and>
   ((newState left right up down isRunning, newDirection p left right up down)
       = (currentState p, currentDirection p) \<longrightarrow>
      Player_updateAnimation p left right up down isRunning = p) \<and>
   Player_updateAnimation (Player_updateAnimation p left right up down isRunning) left right up down isRunning
     = Player_updateAnimation p left right up down isRunning"
  by (auto simp: Player_updateAnimation_def newDirection_def newState_def animationKey_def Let_def)

theorem C3_change_detection_witness:
  "(newState False True False False True, newDirection newPlayer False True False False)
     \<noteq> (currentState newPlayer, currentDirection newPlayer) \<and>
   spritePlayed (Player_updateAnimation newPlayer False True False False True)
     = [''idle-down'', ''run-right''] \<and>
   (newState False False False False True, newDirection newPlayer False False False False)
     = (currentState newPlayer, currentDirection newPlayer) \<and>
   Player_updateAnimation newPlayer False False False False True = newPlayer \<and>
   spritePlayed (Player_updateAnimation (Player_updateAnimation newPlayer False True False False True)
                   False True False False True) = [''idle-down'', ''run-right'']"
proof -
  have d: "(newState False True False False True, newDirection newPlayer False True False False)
     \<noteq> (currentState newPlayer, currentDirection newPlayer)"
    by (simp add: newPlayer_def newState_def newDirection_def)
  have e: "(newState False False False False True, newDirection newPlayer False False False False)
     = (currentState newPlayer, currentDirection newPlayer)"
    by (simp add: newPlayer_def newState_def newDirection_def)
  note a = C3_change_detection [of False True False False True newPlayer]
  note b = C3_change_detection [of False False False False True newPlayer]
  have 1: "spritePlayed (Player_updateAnimation newPlayer False True False False True)
     = [''idle-down'', ''run-right'']"
    using a [THEN conjunct1, rule_format, OF d]
    by (simp add: newPlayer_def newState_def newDirection_def)
  have 2: "Player_updateAnimation newPlayer False False False False True = newPlayer"
    using b [THEN conjunct2, THEN conjunct1, rule_format, OF e] .
  have 3: "spritePlayed (Player_updateAnimation (Player_updateAnimation newPlayer False True False False True)
                   False True False False True) = [''idle-down'', ''run-right'']"
    using a [THEN conjunct2, THEN conjunct2] 1 by simp
  show ?thesis using d e 1 2 3 by blast
qed

subsection \<open>Frame Generator: pose offsets\<close>

lemma upto_0_3: "[0..3] = [0, 1, 2, 3::int]"
  by (simp add: upto.simps)

lemma upto_0_5: "[0..5] = [0, 1, 2, 3, 4, 5::int]"
  by (simp add: upto.simps)

lemma allFramesCalls_offsets:
  "list_all (\<lambda>k. call_offsetY k = spec_verticalOffset (call_action k) (call_frame k) \<and>
                  call_offsetY k = spec_verticalOffset (call_action k)
                     (call_frame k mod (if call_action k = ''idle'' then 4 else 6)))
     allFramesCalls"
  by (simp add: allFramesCalls_def sceneAnimations_def upto_0_3 upto_0_5 Let_def
        spec_verticalOffset_def)

lemma sheetCalls_offsets:
  "list_all (\<lambda>k. call_offsetY k = spec_verticalOffset (call_action k) (call_frame k) \<and>
                  call_offsetY k = spec_verticalOffset (call_action k)
                     (call_frame k mod (if call_action k = ''idle'' then 4 else 6)))
     (idleCalls g @ walkCalls g @ runCalls g)"
  by (simp add: idleCalls_def walkCalls_def runCalls_def directions_def upto_0_3 upto_0_5
        Let_def spec_verticalOffset_def)

lemma allFramesCalls_frames:
  "map (\<lambda>k. (call_action k, call_direction k, call_frame k)) allFramesCalls =
   concat (map (\<lambda>(row, action, direction, n). map (\<lambda>f. (action, direction, f)) [0..n - 1])
               spec_layout)"
  by (simp add: allFramesCalls_def sceneAnimations_def spec_layout_def upto_0_3 upto_0_5 Let_def)

lemma sheetCalls_frames:
  "map (\<lambda>k. (call_action k, call_direction k, call_frame k))
       (idleCalls g @ walkCalls g @ runCalls g) =
   concat (map (\<lambda>(row, action, direction, n). map (\<lambda>f. (action, direction, f)) [0..n - 1])
               spec_layout)"
  by (simp add: idleCalls_def walkCalls_def runCalls_def directions_def spec_layout_def
        upto_0_3 upto_0_5 Let_def)

text \<open>
  Claim C4. The vertical offset is a local of the generating loops: it is computed once
  for each frame the loops draw, that is for each frame index of each of the twelve clips
  (0 to 3 for idle, 0 to 5 for walk and run), in the scene's loop and in the sprite
  generator's loops alike. Every offset computed is the claim's formula at its frame index:
  for idle -1 on frames congruent to 1 or 3 modulo 4 and 0 otherwise, for walk 0 on frames
  congruent to 0 or 3 modulo 6 and -1 otherwise, for run 0 on frames congruent to 0 or 3
  modulo 6 and -2 otherwise; and it is the formula at the frame index reduced modulo the
  period.
\<close>

theorem C4_vertical_offset:
  "list_all (\<lambda>k. call_offsetY k = spec_verticalOffset (call_action k) (call_frame k) \<and>
                  call_offsetY k = spec_verticalOffset (call_action k)
                     (call_frame k mod (if call_action k = ''idle'' then 4 else 6)))
     (allFramesCalls @ idleCalls g @ walkCalls g @ runCalls g) \<and>
   map (\<lambda>k. (call_action k, call_direction k, call_frame k)) allFramesCalls =
     concat (map (\<lambda>(row, action, direction, n). map (\<lambda>f. (action, direction, f)) [0..n - 1])
                 spec_layout) \<and>
   map (\<lambda>k. (call_action k, call_direction k, call_frame k))
       (idleCalls g @ walkCalls g @ runCalls g) =
     concat (map (\<lambda>(row, action, direction, n). map (\<lambda>f. (action, direction, f)) [0..n - 1])
                 spec_layout)"
  using allFramesCalls_offsets sheetCalls_offsets [of g] allFramesCalls_frames
    sheetCalls_frames [of g]
  by simp

theorem C4_vertical_offset_witness:
  "map call_offsetY (take 6 (walkCalls new_SpriteGenerator)) = [0, -1, -1, 0, -1, -1] \<and>
   map call_offsetY (take 4 (idleCalls new_SpriteGenerator)) = [0, -1, 0, -1] \<and>
   map call_offsetY (take 6 (runCalls new_SpriteGenerator)) = [0, -2, -2, 0, -2, -2] \<and>
   list_all (\<lambda>k. call_offsetY k = spec_verticalOffset (call_action k) (call_frame k))
     (walkCalls new_SpriteGenerator)"
proof -
  have "list_all (\<lambda>k. call_offsetY k = spec_verticalOffset (call_action k) (call_frame k))
     (walkCalls new_SpriteGenerator)"
    using C4_vertical_offset [of new_SpriteGenerator, THEN conjunct1]
    by (simp add: list_all_iff)
  moreover have "map call_offsetY (take 6 (walkCalls new_SpriteGenerator)) = [0, -1, -1, 0, -1, -1]"
    "map call_offsetY (take 4 (idleCalls new_SpriteGenerator)) = [0, -1, 0, -1]"
    "map call_offsetY (take 6 (runCalls new_SpriteGenerator)) = [0, -2, -2, 0, -2, -2]"
    by (simp_all add: idleCalls_def walkCalls_def runCalls_def directions_def upto_0_3 upto_0_5
          Let_def)
  ultimately show ?thesis by blast
qed

subsection \<open>Frame Generator: leg positions\<close>

lemma length_walkCycle: "length walkCycle = 6"
  by (simp add: walkCycle_def)

lemma walkCycle_lookup:
  "js_or (js_index walkCycle frame) (js_index walkCycle 0)
     = Some (walkCycle ! (if 0 \<le> frame \<and> frame < 6 then nat frame else 0))"
  by (simp add: js_or_def js_index_def length_walkCycle)

lemma calculateLegPositions_idle:
  "calculateLegPositions ''idle'' frame = Inr \<lparr>leftX = -2, rightX = 2, leftY = 0, rightY = 0\<rparr>"
  by (simp add: calculateLegPositions_def)

lemma calculateLegPositions_walk:
  "calculateLegPositions ''walk'' frame
     = Inr (walkCycle ! (if 0 \<le> frame \<and> frame < 6 then nat frame else 0))"
  by (simp add: calculateLegPositions_def walkCycle_lookup)

lemma calculateLegPositions_run:
  "calculateLegPositions ''run'' frame =
     (let w = walkCycle ! (if 0 \<le> frame \<and> frame < 6 then nat frame else 0)
      in Inr \<lparr>leftX = leftX w * 1.3, rightX = rightX w * 1.3,
              leftY = leftY w * 1.5, rightY = rightY w * 1.5\<rparr>)"
  by (simp add: calculateLegPositions_def walkCycle_lookup Let_def)

lemma calculateLegPositions_total: "\<not> isl (calculateLegPositions action frame)"
  by (simp add: calculateLegPositions_def walkCycle_lookup)

text \<open>
  Claim C5 as stated indexes the walk cycle by the frame index modulo 6. The code reads
  \<open>walkCycle[frame]\<close> and falls back to entry 0 when that is \<open>undefined\<close>: at frame 7
  the legs are those of entry 0, not of entry 1.
\<close>

theorem C5_legs_not_periodic:
  "calculateLegPositions ''walk'' 7 = Inr (walkCycle ! 0) \<and>
   calculateLegPositions ''walk'' 7 \<noteq> Inr (walkCycle ! nat (7 mod 6))"
  by (simp add: calculateLegPositions_walk walkCycle_def)

text \<open>
  Claim C5, amended. For idle the leg offsets are the neutral stance whatever the frame.
  For walk they are entry \<open>f\<close> of the fixed cycle of six when \<open>0 \<le> f < 6\<close> and entry 0 for
  every other frame index. For run each offset is the walk offset of the same frame index
  times 1.3 horizontally and times 1.5 vertically.
\<close>

theorem C5_leg_positions:
  "calculateLegPositions ''idle'' f = Inr \<lparr>leftX = -2, rightX = 2, leftY = 0, rightY = 0\<rparr> \<and>
   calculateLegPositions ''walk'' f = Inr (walkCycle ! (if 0 \<le> f \<and> f < 6 then nat f else 0)) \<and>
   (\<forall>w. calculateLegPositions ''walk'' f = Inr w \<longrightarrow>
      calculateLegPositions ''run'' f =
        Inr \<lparr>leftX = leftX w * 1.3, rightX = rightX w * 1.3,
             leftY = leftY w * 1.5, rightY = rightY w * 1.5\<rparr>)"
  by (simp add: calculateLegPositions_idle calculateLegPositions_walk calculateLegPositions_run Let_def)

theorem C5_leg_positions_witness:
  "calculateLegPositions ''walk'' 4 = Inr \<lparr>leftX = -1, rightX = 1, leftY = 1, rightY = -1\<rparr> \<and>
   calculateLegPositions ''run'' 4 = Inr \<lparr>leftX = -1.3, rightX = 1.3, leftY = 1.5, rightY = -1.5\<rparr> \<and>
   calculateLegPositions ''walk'' 7 = Inr \<lparr>leftX = -2, rightX = 2, leftY = 0, rightY = 0\<rparr> \<and>
   calculateLegPositions ''run'' 7 = Inr \<lparr>leftX = -2.6, rightX = 2.6, leftY = 0, rightY = 0\<rparr>"
proof -
  have w4: "calculateLegPositions ''walk'' 4 = Inr \<lparr>leftX = -1, rightX = 1, leftY = 1, rightY = -1\<rparr>"
    using C5_leg_positions [of 4] by (simp add: walkCycle_def)
  have w7: "calculateLegPositions ''walk'' 7 = Inr \<lparr>leftX = -2, rightX = 2, leftY = 0, rightY = 0\<rparr>"
    using C5_leg_positions [of 7] by (simp add: walkCycle_def)
  have r4: "calculateLegPositions ''run'' 4 = Inr \<lparr>leftX = -1.3, rightX = 1.3, leftY = 1.5, rightY = -1.5\<rparr>"
    using C5_leg_positions [of 4, THEN conjunct2, THEN conjunct2, rule_format, OF w4] by simp
  have r7: "calculateLegPositions ''run'' 7 = Inr \<lparr>leftX = -2.6, rightX = 2.6, leftY = 0, rightY = 0\<rparr>"
    using C5_leg_positions [of 7, THEN conjunct2, THEN conjunct2, rule_format, OF w7] by simp
  show ?thesis using w4 w7 r4 r7 by blast
qed

subsection \<open>Frame Generator: drawing one frame\<close>

lemma drawPixelRect_eq:
  "drawPixelRect c x y w h col =
     \<lparr>fillStyle = col, drawn = drawn c @ [FillRect \<lfloor>x\<rfloor> \<lfloor>y\<rfloor> w h col]\<rparr>"
  by (simp add: drawPixelRect_def fillRect_def)

lemma drawPixel_eq:
  "drawPixel c x y col = \<lparr>fillStyle = col, drawn = drawn c @ [FillRect \<lfloor>x\<rfloor> \<lfloor>y\<rfloor> 1 1 col]\<rparr>"
  by (simp add: drawPixel_def fillRect_def)

lemma drawLegs_rel:
  "drawn c1 = pre @ drawn c2 \<Longrightarrow>
   drawn (drawLegs g c1 cx by d p) = pre @ drawn (drawLegs g c2 cx by d p)"
  by (simp add: drawLegs_def drawPixelRect_eq Let_def)

lemma drawBody_rel:
  "drawn c1 = pre @ drawn c2 \<Longrightarrow>
   drawn (drawBody g c1 cx by d) = pre @ drawn (drawBody g c2 cx by d)"
  by (simp add: drawBody_def drawPixelRect_eq Let_def)

lemma drawArms_rel:
  "drawn c1 = pre @ drawn c2 \<Longrightarrow>
   drawn (drawArms g c1 cx by d a f) = pre @ drawn (drawArms g c2 cx by d a f)"
  by (simp add: drawArms_def drawPixelRect_eq Let_def)

lemma drawHead_rel:
  "drawn c1 = pre @ drawn c2 \<Longrightarrow>
   drawn (drawHead g c1 cx by d) = pre @ drawn (drawHead g c2 cx by d)"
  by (simp add: drawHead_def drawPixelRect_eq Let_def)

lemma drawFace_rel:
  "drawn c1 = pre @ drawn c2 \<Longrightarrow>
   drawn (drawFace g c1 cx by) = pre @ drawn (drawFace g c2 cx by)"
  by (simp add: drawFace_def drawPixel_eq Let_def)

lemma drawFaceSide_rel:
  "drawn c1 = pre @ drawn c2 \<Longrightarrow>
   drawn (drawFaceSide g c1 cx by d) = pre @ drawn (drawFaceSide g c2 cx by d)"
  by (simp add: drawFaceSide_def drawPixel_eq Let_def)

lemma drawHairFront_rel:
  "drawn c1 = pre @ drawn c2 \<Longrightarrow>
   drawn (drawHairFront g c1 cx by) = pre @ drawn (drawHairFront g c2 cx by)"
  by (simp add: drawHairFront_def drawPixelRect_eq drawPixel_eq Let_def)

lemma drawHairBack_rel:
  "drawn c1 = pre @ drawn c2 \<Longrightarrow>
   drawn (drawHairBack g c1 cx by) = pre @ drawn (drawHairBack g c2 cx by)"
  by (simp add: drawHairBack_def drawPixelRect_eq drawPixel_eq Let_def)

lemma drawHairSide_rel:
  "drawn c1 = pre @ drawn c2 \<Longrightarrow>
   drawn (drawHairSide g c1 cx by d) = pre @ drawn (drawHairSide g c2 cx by d)"
  by (simp add: drawHairSide_def drawPixelRect_eq drawPixel_eq Let_def)

lemmas draw_rel = drawLegs_rel drawBody_rel drawArms_rel drawHead_rel drawFace_rel
  drawFaceSide_rel drawHairFront_rel drawHairBack_rel drawHairSide_rel

lemma calculateLegPositions_Inr:
  "\<exists>p. calculateLegPositions action frame = Inr p"
  using calculateLegPositions_total [of action frame]
  by (cases "calculateLegPositions action frame") auto

lemma drawCharacter_rel:
  assumes "drawn c1 = pre @ drawn c2"
  shows "\<exists>a b. drawCharacter g c1 x y d act f off = Inr a \<and>
               drawCharacter g c2 x y d act f off = Inr b \<and> drawn a = pre @ drawn b"
proof -
  obtain p where p: "calculateLegPositions act f = Inr p"
    using calculateLegPositions_Inr by blast
  consider "d = ''up''" | "d = ''down''" | "d \<noteq> ''up''" "d \<noteq> ''down''" by blast
  then show ?thesis
  proof cases
    case 1
    then show ?thesis
      by (simp add: drawCharacter_def p Let_def) (intro draw_rel assms)
  next
    case 2
    then show ?thesis
      by (simp add: drawCharacter_def p Let_def) (intro draw_rel assms)
  next
    case 3
    then show ?thesis
      by (simp add: drawCharacter_def p Let_def) (intro draw_rel assms)
  qed
qed

lemma drawCharacter_appends:
  "\<exists>c'. drawCharacter g c x y d a f off = Inr c' \<and>
        drawn c' = drawn c @ characterOps g x y d a f off"
  using drawCharacter_rel [of c "drawn c" new_ctx g x y d a f off]
  by (auto simp: characterOps_def new_ctx_def)

lemma emitted_drawCharacter:
  "emitted c (drawCharacter g c x y d a f off) = Inr (characterOps g x y d a f off)"
proof -
  obtain c' where "drawCharacter g c x y d a f off = Inr c'"
    and "drawn c' = drawn c @ characterOps g x y d a f off"
    using drawCharacter_appends by blast
  then show ?thesis by (simp add: emitted_def)
qed

lemma drawCharacter_total: "\<not> isl (drawCharacter g c x y d a f off)"
  using drawCharacter_appends [of g c x y d a f off] by auto

lemma drawHairBack_last:
  "drawn (drawHairBack g c cx by) \<noteq> []"
  by (simp add: drawHairBack_def drawPixel_eq Let_def)

lemma drawHairFront_last:
  "drawn (drawHairFront g c cx by) \<noteq> []"
  by (simp add: drawHairFront_def drawPixel_eq Let_def)

lemma drawHairSide_last:
  "drawn (drawHairSide g c cx by d) \<noteq> []"
  by (simp add: drawHairSide_def drawPixel_eq Let_def)

lemma characterOps_nonempty: "characterOps g x y d a f off \<noteq> []"
proof -
  obtain p where p: "calculateLegPositions a f = Inr p"
    using calculateLegPositions_Inr by blast
  show ?thesis
    by (simp add: characterOps_def drawCharacter_def p Let_def
          drawHairBack_last drawHairFront_last drawHairSide_last)
qed

text \<open>
  Claim C8. Two calls of the character frame generator with the same arguments issue the
  same sequence of drawing commands, whatever the canvas held and whatever its
  \<open>fillStyle\<close> was before each call: the sequence is a function of the arguments alone,
  and no random source enters it.
\<close>

theorem C8_determinism:
  "emitted c1 (drawCharacter g c1 x y direction action frame offsetY) =
   emitted c2 (drawCharacter g c2 x y direction action frame offsetY) \<and>
   emitted c1 (drawCharacter g c1 x y direction action frame offsetY) =
   Inr (characterOps g x y direction action frame offsetY)"
  by (simp add: emitted_drawCharacter)

text \<open>
  Claim C9 as stated has a frame index outside the clip fail. At frame -1 of walk the leg
  positions are those of frame 0 and \<open>drawCharacter\<close> returns normally, having drawn the
  sixteen rectangles of a front view.
\<close>

theorem C9_negative_frame_is_drawn:
  "calculateLegPositions ''walk'' (-1) = Inr \<lparr>leftX = -2, rightX = 2, leftY = 0, rightY = 0\<rparr> \<and>
   \<not> isl (drawCharacter new_SpriteGenerator new_ctx 0 0 ''down'' ''walk'' (-1) 0) \<and>
   length (drawn (projr (drawCharacter new_SpriteGenerator new_ctx 0 0 ''down'' ''walk'' (-1) 0))) = 16"
proof -
  have l: "calculateLegPositions ''walk'' (-1) = Inr \<lparr>leftX = -2, rightX = 2, leftY = 0, rightY = 0\<rparr>"
    by (simp add: calculateLegPositions_walk walkCycle_def)
  show ?thesis
    by (simp add: l drawCharacter_def Let_def drawLegs_def drawBody_def drawHead_def drawFace_def
          drawHairFront_def drawPixelRect_eq drawPixel_eq new_ctx_def)
qed

text \<open>
  Claim C9, amended. No frame index makes the Frame Generator fail: for every frame index,
  also outside the clip and also negative, \<open>calculateLegPositions\<close> returns leg positions
  and \<open>drawCharacter\<close> returns normally and draws a frame. For a frame index outside 0..5
  the leg positions are those of frame 0.
\<close>

theorem C9_no_failure:
  "\<not> isl (calculateLegPositions action frame) \<and>
   \<not> isl (drawCharacter g c x y direction action frame offsetY) \<and>
   emitted c (drawCharacter g c x y direction action frame offsetY) \<noteq> Inr [] \<and>
   (\<not> (0 \<le> frame \<and> frame < 6) \<longrightarrow>
      calculateLegPositions action frame = calculateLegPositions action 0)"
  by (simp add: calculateLegPositions_total drawCharacter_total emitted_drawCharacter
        characterOps_nonempty calculateLegPositions_def walkCycle_lookup)

theorem C9_no_failure_witness:
  "\<not> (0 \<le> (-1::int) \<and> (-1::int) < 6) \<and>
   calculateLegPositions ''run'' (-1) = calculateLegPositions ''run'' 0 \<and>
   \<not> isl (drawCharacter new_SpriteGenerator new_ctx 0 0 ''left'' ''run'' (-1) 0)"
  using C9_no_failure [of "''run''" "-1" new_SpriteGenerator new_ctx 0 0 "''left''" 0]
  by simp

subsection \<open>Clip table: rows\<close>

lemma find_assignFirst_rows:
  "List.find P xs = Some e \<Longrightarrow>
   set (map rowOf (assignFirst P u xs)) \<subseteq> insert (rowOf (e ++ u)) (set (map rowOf xs))"
  by (induction xs) (auto split: if_splits)

lemma distinct_assignFirst:
  assumes "List.find P xs = Some e" "distinct (map rowOf xs)"
    "rowOf (e ++ u) = rowOf e \<or> rowOf (e ++ u) \<notin> set (map rowOf xs)"
  shows "distinct (map rowOf (assignFirst P u xs))"
  using assms
proof (induction xs)
  case Nil
  then show ?case by simp
next
  case (Cons x xs)
  show ?case
  proof (cases "P x")
    case True
    with Cons.prems show ?thesis by auto
  next
    case False
    with Cons.prems have f: "List.find P xs = Some e" by simp
    then have e_in: "e \<in> set xs" by (auto simp: find_Some_iff)
    from Cons.prems have d: "distinct (map rowOf xs)" and nx: "rowOf x \<notin> set (map rowOf xs)"
      by auto
    from Cons.prems(3) have c: "rowOf (e ++ u) = rowOf e \<or> rowOf (e ++ u) \<notin> set (map rowOf xs)"
      by auto
    have ne: "rowOf x \<noteq> rowOf (e ++ u)"
      using Cons.prems(3) nx e_in by auto
    have "rowOf x \<notin> set (map rowOf (assignFirst P u xs))"
      using find_assignFirst_rows [OF f, of u] nx ne by auto
    with Cons.IH [OF f d c] False show ?thesis by simp
  qed
qed

lemma updateAnimation_keeps_distinct:
  assumes "distinct (rows cfg)" "keepsRows cfg action direction updates"
  shows "distinct (rows (SpriteConfig_updateAnimation cfg action direction updates))"
proof (cases "List.find (sameClip action direction) (animations cfg)")
  case None
  with assms show ?thesis
    by (simp add: SpriteConfig_updateAnimation_def keepsRows_def written_def getAnimation_def
          rows_def Let_def)
next
  case (Some e)
  with assms(2) have "rowOf (e ++ updates) = rowOf e \<or> rowOf (e ++ updates) \<notin> set (map rowOf (animations cfg))"
    by (simp add: keepsRows_def written_def getAnimation_def rows_def Let_def)
  from distinct_assignFirst [OF Some _ this] assms(1) Some show ?thesis
    by (simp add: SpriteConfig_updateAnimation_def rows_def)
qed

lemma updateAnimations_keep_distinct:
  "distinct (rows cfg) \<Longrightarrow> allKeepRows cfg calls \<Longrightarrow> distinct (rows (updateAnimations cfg calls))"
proof (induction calls arbitrary: cfg)
  case Nil
  then show ?case by simp
next
  case (Cons k calls)
  obtain a d u where k: "k = (a, d, u)" by (cases k) auto
  from Cons.prems have "distinct (rows (SpriteConfig_updateAnimation cfg a d u))"
    by (simp add: k updateAnimation_keeps_distinct)
  with Cons.IH Cons.prems show ?case by (simp add: k)
qed

lemma rows_default: "rows DEFAULT_ANIMATION_CONFIG = map (\<lambda>r. Some (Num r)) [0..11]"
  by (simp add: rows_def rowOf_def DEFAULT_ANIMATION_CONFIG_def animation_entry_def upto.simps)

lemma distinct_rows_default: "distinct (rows DEFAULT_ANIMATION_CONFIG)"
  by (simp add: rows_default distinct_map inj_on_def)

text \<open>
  Claim C7 as stated has the rows pairwise distinct after any sequence of calls. One call
  from the default table breaks it: setting the row of idle-down to 1, the row of
  idle-left; or changing the frame count of attack-down, which has no entry, so that a new
  entry is appended with row 0, the row of idle-down.
\<close>

theorem C7_rows_collide:
  "\<not> distinct (rows (SpriteConfig_updateAnimation DEFAULT_ANIMATION_CONFIG ''idle'' ''down''
                     [''row'' \<mapsto> Num 1])) \<and>
   \<not> distinct (rows (SpriteConfig_updateAnimation DEFAULT_ANIMATION_CONFIG ''attack'' ''down''
                     [''frameCount'' \<mapsto> Num 3]))"
  by (simp add: rows_def rowOf_def SpriteConfig_updateAnimation_def DEFAULT_ANIMATION_CONFIG_def
        animation_entry_def sameClip_def)

text \<open>
  Claim C7, amended. The rows of the default table are pairwise distinct, and they stay
  pairwise distinct along every sequence of \<open>updateAnimation\<close> calls in which each call
  writes an entry whose row is the row that entry had before the call or a row that no
  entry of the table has. \<open>updateAnimation\<close> itself checks nothing.
\<close>

theorem C7_rows_distinct:
  "distinct (rows DEFAULT_ANIMATION_CONFIG) \<and>
   (allKeepRows DEFAULT_ANIMATION_CONFIG calls \<longrightarrow>
      distinct (rows (updateAnimations DEFAULT_ANIMATION_CONFIG calls)))"
  using distinct_rows_default updateAnimations_keep_distinct by blast

theorem C7_rows_distinct_witness:
  "allKeepRows DEFAULT_ANIMATION_CONFIG
     [(''idle'', ''down'', [''frameRate'' \<mapsto> Num 6]), (''attack'', ''down'', [''row'' \<mapsto> Num 12])] \<and>
   distinct (rows (updateAnimations DEFAULT_ANIMATION_CONFIG
     [(''idle'', ''down'', [''frameRate'' \<mapsto> Num 6]), (''attack'', ''down'', [''row'' \<mapsto> Num 12])]))"
proof -
  have h: "allKeepRows DEFAULT_ANIMATION_CONFIG
     [(''idle'', ''down'', [''frameRate'' \<mapsto> Num 6]), (''attack'', ''down'', [''row'' \<mapsto> Num 12])]"
    by (simp add: keepsRows_def written_def getAnimation_def rows_def rowOf_def Let_def
          SpriteConfig_updateAnimation_def DEFAULT_ANIMATION_CONFIG_def animation_entry_def
          sameClip_def)
  from C7_rows_distinct [THEN conjunct2, rule_format, OF h] h show ?thesis by blast
qed

subsection \<open>Clip table: update and lookup\<close>

lemma find_assignFirst:
  assumes "List.find P xs = Some e" "P (e ++ u)"
  shows "List.find P (assignFirst P u xs) = Some (e ++ u)"
  using assms by (induction xs) (auto split: if_splits)

lemma sameClip_assign:
  assumes "sameClip action direction e"
    "updates ''action'' = None \<or> updates ''action'' = Some (Str action)"
    "updates ''direction'' = None \<or> updates ''direction'' = Some (Str direction)"
  shows "sameClip action direction (e ++ updates)"
  using assms by (auto simp: sameClip_def map_add_def split: option.splits)

lemma sameClip_new_entry: "sameClip action direction (animation_entry action direction r s n q)"
  by (simp add: sameClip_def animation_entry_def)

lemma find_append_new:
  "List.find P xs = None \<Longrightarrow> P e \<Longrightarrow> List.find P (xs @ [e]) = Some e"
  by (induction xs) (auto split: if_splits)

lemma assigned_fields: "updates k = Some v \<Longrightarrow> (e ++ updates) k = Some v"
  by (simp add: map_add_def)

lemma getAnimation_updateAnimation:
  assumes "updates ''action'' = None \<or> updates ''action'' = Some (Str action)"
    "updates ''direction'' = None \<or> updates ''direction'' = Some (Str direction)"
  shows "getAnimation (SpriteConfig_updateAnimation cfg action direction updates) action direction
           = Some (written cfg action direction updates)"
proof (cases "List.find (sameClip action direction) (animations cfg)")
  case None
  have "sameClip action direction (animation_entry action direction 0 0 4 8 ++ updates)"
    using sameClip_assign [OF sameClip_new_entry assms] .
  with None show ?thesis
    by (simp add: getAnimation_def SpriteConfig_updateAnimation_def written_def find_append_new)
next
  case (Some e)
  then have "sameClip action direction e" by (auto simp: find_Some_iff)
  then have "sameClip action direction (e ++ updates)"
    using sameClip_assign assms by blast
  with Some show ?thesis
    by (simp add: getAnimation_def SpriteConfig_updateAnimation_def written_def find_assignFirst)
qed

text \<open>
  Claim C10 as stated covers every record of updates. \<open>Object.assign\<close> also overwrites
  the fields \<open>action\<close> and \<open>direction\<close> when the updates name them: after the action of
  idle-down is set to walk in the default table, the lookup of idle-down finds nothing.
\<close>

theorem C10_key_overwritten:
  "getAnimation (SpriteConfig_updateAnimation DEFAULT_ANIMATION_CONFIG ''idle'' ''down''
                   [''action'' \<mapsto> Str ''walk'']) ''idle'' ''down'' = None"
  by (simp add: getAnimation_def SpriteConfig_updateAnimation_def DEFAULT_ANIMATION_CONFIG_def
        animation_entry_def sameClip_def)

text \<open>
  Claim C10, amended. For every clip table, action, direction and record of updates that
  does not give \<open>action\<close> or \<open>direction\<close> another value than the one of the call: after
  \<open>updateAnimation(action, direction, updates)\<close> the lookup \<open>getAnimation(action, direction)\<close>
  returns an entry that has every field of the updates; and when the table had no entry
  for the pair, that entry is appended to the table, with the fields the updates do not
  name at row 0, startFrame 0, frameCount 4, frameRate 8 and the action and direction of
  the call.
\<close>

theorem C10_update_lookup:
  "(updates ''action'' = None \<or> updates ''action'' = Some (Str action)) \<and>
   (updates ''direction'' = None \<or> updates ''direction'' = Some (Str direction)) \<longrightarrow>
   (\<exists>e. getAnimation (SpriteConfig_updateAnimation cfg action direction updates) action direction
          = Some e \<and>
        (\<forall>k v. updates k = Some v \<longrightarrow> e k = Some v) \<and>
        (getAnimation cfg action direction = None \<longrightarrow>
           animations (SpriteConfig_updateAnimation cfg action direction updates)
             = animations cfg @ [e] \<and>
           e = animation_entry action direction 0 0 4 8 ++ updates \<and>
           (\<forall>k. updates k = None \<longrightarrow> e k = animation_entry action direction 0 0 4 8 k)))"
proof (intro impI, elim conjE)
  assume a: "updates ''action'' = None \<or> updates ''action'' = Some (Str action)"
    and d: "updates ''direction'' = None \<or> updates ''direction'' = Some (Str direction)"
  let ?e = "written cfg action direction updates"
  have 1: "getAnimation (SpriteConfig_updateAnimation cfg action direction updates) action direction
             = Some ?e"
    using getAnimation_updateAnimation [OF a d] .
  have 2: "\<forall>k v. updates k = Some v \<longrightarrow> ?e k = Some v"
    by (simp add: written_def assigned_fields split: option.splits)
  have 3: "getAnimation cfg action direction = None \<longrightarrow>
           animations (SpriteConfig_updateAnimation cfg action direction updates)
             = animations cfg @ [?e] \<and>
           ?e = animation_entry action direction 0 0 4 8 ++ updates \<and>
           (\<forall>k. updates k = None \<longrightarrow> ?e k = animation_entry action direction 0 0 4 8 k)"
    by (simp add: written_def getAnimation_def SpriteConfig_updateAnimation_def map_add_def)
  show "\<exists>e. getAnimation (SpriteConfig_updateAnimation cfg action direction updates) action direction
          = Some e \<and>
        (\<forall>k v. updates k = Some v \<longrightarrow> e k = Some v) \<and>
        (getAnimation cfg action direction = None \<longrightarrow>
           animations (SpriteConfig_updateAnimation cfg action direction updates)
             = animations cfg @ [e] \<and>
           e = animation_entry action direction 0 0 4 8 ++ updates \<and>
           (\<forall>k. updates k = None \<longrightarrow> e k = animation_entry action direction 0 0 4 8 k))"
    by (intro exI [of _ ?e] conjI 1 2 3)
qed

theorem C10_update_lookup_witness:
  "\<exists>e. getAnimation (SpriteConfig_updateAnimation DEFAULT_ANIMATION_CONFIG ''attack'' ''down''
                      [''frameCount'' \<mapsto> Num 3]) ''attack'' ''down'' = Some e \<and>
       e ''frameCount'' = Some (Num 3) \<and> e ''row'' = Some (Num 0) \<and>
       e ''startFrame'' = Some (Num 0) \<and> e ''frameRate'' = Some (Num 8) \<and>
       e ''action'' = Some (Str ''attack'') \<and> e ''direction'' = Some (Str ''down'')"
proof -
  let ?u = "[''frameCount'' \<mapsto> Num 3] :: animation"
  have h: "(?u ''action'' = None \<or> ?u ''action'' = Some (Str ''attack'')) \<and>
           (?u ''direction'' = None \<or> ?u ''direction'' = Some (Str ''down''))"
    by simp
  have n: "getAnimation DEFAULT_ANIMATION_CONFIG ''attack'' ''down'' = None"
    by (simp add: getAnimation_def DEFAULT_ANIMATION_CONFIG_def animation_entry_def sameClip_def)
  have "\<exists>e. getAnimation (SpriteConfig_updateAnimation DEFAULT_ANIMATION_CONFIG
                        ''attack'' ''down'' ?u) ''attack'' ''down'' = Some e \<and>
        (\<forall>k v. ?u k = Some v \<longrightarrow> e k = Some v) \<and>
        (getAnimation DEFAULT_ANIMATION_CONFIG ''attack'' ''down'' = None \<longrightarrow>
           animations (SpriteConfig_updateAnimation DEFAULT_ANIMATION_CONFIG ''attack'' ''down'' ?u)
             = animations DEFAULT_ANIMATION_CONFIG @ [e] \<and>
           e = animation_entry ''attack'' ''down'' 0 0 4 8 ++ ?u \<and>
           (\<forall>k. ?u k = None \<longrightarrow> e k = animation_entry ''attack'' ''down'' 0 0 4 8 k))"
    using C10_update_lookup [of ?u "''attack''" "''down''" DEFAULT_ANIMATION_CONFIG] h
    by (rule mp)
  then show ?thesis
  proof (elim exE conjE)
    fix e
    assume e: "getAnimation (SpriteConfig_updateAnimation DEFAULT_ANIMATION_CONFIG
                        ''attack'' ''down'' ?u) ''attack'' ''down'' = Some e"
      and new: "getAnimation DEFAULT_ANIMATION_CONFIG ''attack'' ''down'' = None \<longrightarrow>
           animations (SpriteConfig_updateAnimation DEFAULT_ANIMATION_CONFIG ''attack'' ''down'' ?u)
             = animations DEFAULT_ANIMATION_CONFIG @ [e] \<and>
           e = animation_entry ''attack'' ''down'' 0 0 4 8 ++ ?u \<and>
           (\<forall>k. ?u k = None \<longrightarrow> e k = animation_entry ''attack'' ''down'' 0 0 4 8 k)"
    from new [rule_format, OF n] have "e = animation_entry ''attack'' ''down'' 0 0 4 8 ++ ?u"
      by (elim conjE)
    then have "e ''frameCount'' = Some (Num 3) \<and> e ''row'' = Some (Num 0) \<and>
       e ''startFrame'' = Some (Num 0) \<and> e ''frameRate'' = Some (Num 8) \<and>
       e ''action'' = Some (Str ''attack'') \<and> e ''direction'' = Some (Str ''down'')"
      by (simp add: animation_entry_def)
    with e show ?thesis by (intro exI [of _ e] conjI) simp_all
  qed
qed

subsection \<open>Frame Generator: the sheet\<close>

lemma drawCalls_total: "\<not> isl (drawCalls g ks c)"
proof (induction ks arbitrary: c)
  case Nil
  show ?case by simp
next
  case (Cons k ks)
  obtain c' where "drawCharacter g c (call_x k) (call_y k) (call_direction k) (call_action k)
                     (call_frame k) (call_offsetY k) = Inr c'"
    using drawCharacter_appends by blast
  with Cons.IH show ?case by simp
qed

lemma drawCalls_Inr: "\<exists>c'. drawCalls g ks c = Inr c'"
  using drawCalls_total [of g ks c] by (cases "drawCalls g ks c") auto

lemma drawCalls_append:
  "drawCalls g (ks @ ks') c =
     (case drawCalls g ks c of Inl e \<Rightarrow> Inl e | Inr c' \<Rightarrow> drawCalls g ks' c')"
  by (induction ks arbitrary: c) (auto split: sum.splits)

lemma generateSpritesheet_eq:
  "generateSpritesheet g =
     Inr \<lparr>canvas_width = frameWidth g * framesPerRow g,
          canvas_height = frameHeight g * totalRows g,
          canvas_ctx = projr (drawCalls g (idleCalls g @ walkCalls g @ runCalls g)
                              (clearRect new_ctx 0 0 (frameWidth g * framesPerRow g)
                                 (frameHeight g * totalRows g)))\<rparr>"
proof -
  let ?c0 = "clearRect new_ctx 0 0 (frameWidth g * framesPerRow g) (frameHeight g * totalRows g)"
  obtain c1 where 1: "drawCalls g (idleCalls g) ?c0 = Inr c1" using drawCalls_Inr by blast
  obtain c2 where 2: "drawCalls g (walkCalls g) c1 = Inr c2" using drawCalls_Inr by blast
  obtain c3 where 3: "drawCalls g (runCalls g) c2 = Inr c3" using drawCalls_Inr by blast
  show ?thesis
    by (simp add: generateSpritesheet_def Let_def generateIdleAnimations_def
          generateWalkAnimations_def generateRunAnimations_def drawCalls_append 1 2 3)
qed

lemma sheet_calls_layout:
  "map (\<lambda>k. (call_y k, call_action k, call_direction k, call_frame k, call_x k))
       (idleCalls g @ walkCalls g @ runCalls g) =
   concat (map (\<lambda>(row, action, direction, n).
                  map (\<lambda>f. (real_of_int row * frameHeight g, action, direction, f,
                             real_of_int f * frameWidth g)) [0..n - 1])
               spec_layout)"
  by (simp add: idleCalls_def walkCalls_def runCalls_def directions_def spec_layout_def
        upto_0_3 upto_0_5 Let_def)

lemma default_config_layout:
  "map (\<lambda>a. (a ''row'', a ''action'', a ''direction'', a ''frameCount''))
       (animations DEFAULT_ANIMATION_CONFIG) =
   map (\<lambda>(row, action, direction, n).
          (Some (Num row), Some (Str action), Some (Str direction), Some (Num n)))
       spec_layout"
  by (simp add: DEFAULT_ANIMATION_CONFIG_def animation_entry_def spec_layout_def)

lemma drawCalls_drawn:
  "drawn (projr (drawCalls g ks c)) = drawn c @ concat (map (callOps g) ks)"
proof (induction ks arbitrary: c)
  case Nil
  show ?case by simp
next
  case (Cons k ks)
  obtain c' where c': "drawCharacter g c (call_x k) (call_y k) (call_direction k) (call_action k)
                     (call_frame k) (call_offsetY k) = Inr c'"
    and d: "drawn c' = drawn c @ callOps g k"
    using drawCharacter_appends [of g c] unfolding callOps_def by blast
  show ?case by (simp add: c' Cons.IH d)
qed

lemma sheet_content:
  "drawn (canvas_ctx (projr (generateSpritesheet g))) =
     ClearRect 0 0 (frameWidth g * framesPerRow g) (frameHeight g * totalRows g) #
     concat (map (callOps g) (idleCalls g @ walkCalls g @ runCalls g))"
  by (simp add: generateSpritesheet_eq drawCalls_drawn clearRect_def new_ctx_def)

lemma walkCycle_bounds:
  "list_all (\<lambda>w. -4 \<le> leftX w \<and> leftX w \<le> 4 \<and> -4 \<le> rightX w \<and> rightX w \<le> 4 \<and>
                  -1 \<le> leftY w \<and> leftY w \<le> 1 \<and> -1 \<le> rightY w \<and> rightY w \<le> 1) walkCycle"
  by (simp add: walkCycle_def)

lemma walkCycle_nth_bounds:
  assumes "i < 6"
  shows "-4 \<le> leftX (walkCycle ! i) \<and> leftX (walkCycle ! i) \<le> 4 \<and>
         -4 \<le> rightX (walkCycle ! i) \<and> rightX (walkCycle ! i) \<le> 4 \<and>
         -1 \<le> leftY (walkCycle ! i) \<and> leftY (walkCycle ! i) \<le> 1 \<and>
         -1 \<le> rightY (walkCycle ! i) \<and> rightY (walkCycle ! i) \<le> 1"
  using walkCycle_bounds assms by (simp add: list_all_length length_walkCycle)

lemma legs_bounds:
  assumes "calculateLegPositions action frame = Inr p"
  shows "-6 \<le> leftX p \<and> leftX p \<le> 6 \<and> -6 \<le> rightX p \<and> rightX p \<le> 6 \<and>
         -2 \<le> leftY p \<and> leftY p \<le> 2 \<and> -2 \<le> rightY p \<and> rightY p \<le> 2"
proof -
  define w where "w = walkCycle ! (if 0 \<le> frame \<and> frame < 6 then nat frame else 0)"
  have "(if 0 \<le> frame \<and> frame < 6 then nat frame else 0) < 6" by auto
  from walkCycle_nth_bounds [OF this]
  have b: "-4 \<le> leftX w" "leftX w \<le> 4" "-4 \<le> rightX w" "rightX w \<le> 4"
    "-1 \<le> leftY w" "leftY w \<le> 1" "-1 \<le> rightY w" "rightY w \<le> 1"
    unfolding w_def by blast+
  consider "action = ''idle''" | "action = ''run''" | "action \<noteq> ''idle''" "action \<noteq> ''run''"
    by blast
  then show ?thesis
  proof cases
    case 1
    with assms have "p = \<lparr>leftX = -2, rightX = 2, leftY = 0, rightY = 0\<rparr>"
      by (simp add: calculateLegPositions_def)
    then show ?thesis by simp
  next
    case 2
    with assms have "p = \<lparr>leftX = leftX w * 1.3, rightX = rightX w * 1.3,
                           leftY = leftY w * 1.5, rightY = rightY w * 1.5\<rparr>"
      by (simp add: calculateLegPositions_def walkCycle_lookup w_def)
    then have "leftX p = leftX w * 1.3" "rightX p = rightX w * 1.3"
      "leftY p = leftY w * 1.5" "rightY p = rightY w * 1.5" by simp_all
    with b show ?thesis by simp
  next
    case 3
    with assms have "p = w"
      by (simp add: calculateLegPositions_def walkCycle_lookup w_def)
    with b show ?thesis by simp
  qed
qed

lemma tile_pixelRect:
  assumes "list_all (tileBand x y) (drawn c)"
    "x \<in> \<int>" "y \<in> \<int>" "x \<le> px" "px + real_of_int w \<le> x + 32" "y - 3 \<le> py" "py + real_of_int h \<le> y + 32"
  shows "list_all (tileBand x y) (drawn (drawPixelRect c px py w h col))"
proof -
  from assms(2,3) obtain xi yi where x: "x = of_int xi" and y: "y = of_int yi"
    by (auto elim!: Ints_cases)
  from assms(4-7) have "xi \<le> \<lfloor>px\<rfloor> \<and> \<lfloor>px\<rfloor> + w \<le> xi + 32 \<and> yi - 3 \<le> \<lfloor>py\<rfloor> \<and> \<lfloor>py\<rfloor> + h \<le> yi + 32"
    unfolding x y by linarith
  with assms(1) show ?thesis
    by (simp add: drawPixelRect_eq tileBand_def x y)
qed


lemma tile_pixel:
  assumes "list_all (tileBand x y) (drawn c)"
    "x \<in> \<int>" "y \<in> \<int>" "x \<le> px" "px + 1 \<le> x + 32" "y - 3 \<le> py" "py + 1 \<le> y + 32"
  shows "list_all (tileBand x y) (drawn (drawPixel c px py col))"
proof -
  from assms(2,3) obtain xi yi where x: "x = of_int xi" and y: "y = of_int yi"
    by (auto elim!: Ints_cases)
  from assms(4-7) have "xi \<le> \<lfloor>px\<rfloor> \<and> \<lfloor>px\<rfloor> + 1 \<le> xi + 32 \<and> yi - 3 \<le> \<lfloor>py\<rfloor> \<and> \<lfloor>py\<rfloor> + 1 \<le> yi + 32"
    unfolding x y by linarith
  with assms(1) show ?thesis
    by (simp add: drawPixel_eq tileBand_def x y)
qed

lemma drawLegs_tile:
  assumes "list_all (tileBand x y) (drawn c)" "x \<in> \<int>" "y \<in> \<int>"
    "cx = x + 16" "y + 26 \<le> by" "by \<le> y + 28"
    "-6 \<le> leftX p \<and> leftX p \<le> 6 \<and> -6 \<le> rightX p \<and> rightX p \<le> 6 \<and>
     -2 \<le> leftY p \<and> leftY p \<le> 2 \<and> -2 \<le> rightY p \<and> rightY p \<le> 2"
  shows "list_all (tileBand x y) (drawn (drawLegs g c cx by d p))"
  using assms unfolding drawLegs_def Let_def
  by (auto intro!: tile_pixelRect)

lemma drawBody_tile:
  assumes "list_all (tileBand x y) (drawn c)" "x \<in> \<int>" "y \<in> \<int>"
    "cx = x + 16" "y + 26 \<le> by" "by \<le> y + 28"
  shows "list_all (tileBand x y) (drawn (drawBody g c cx by d))"
  using assms unfolding drawBody_def Let_def
  by (auto intro!: tile_pixelRect)

lemma drawHead_tile:
  assumes "list_all (tileBand x y) (drawn c)" "x \<in> \<int>" "y \<in> \<int>"
    "cx = x + 16" "y + 26 \<le> by" "by \<le> y + 28"
  shows "list_all (tileBand x y) (drawn (drawHead g c cx by d))"
  using assms unfolding drawHead_def Let_def
  by (auto intro!: tile_pixelRect)

lemma drawFace_tile:
  assumes "list_all (tileBand x y) (drawn c)" "x \<in> \<int>" "y \<in> \<int>"
    "cx = x + 16" "y + 26 \<le> by" "by \<le> y + 28"
  shows "list_all (tileBand x y) (drawn (drawFace g c cx by))"
  using assms unfolding drawFace_def Let_def
  by (auto intro!: tile_pixel)

lemma drawFaceSide_tile:
  assumes "list_all (tileBand x y) (drawn c)" "x \<in> \<int>" "y \<in> \<int>"
    "cx = x + 16" "y + 26 \<le> by" "by \<le> y + 28"
  shows "list_all (tileBand x y) (drawn (drawFaceSide g c cx by d))"
  using assms unfolding drawFaceSide_def Let_def
  by (auto intro!: tile_pixel)

lemma drawHairFront_tile:
  assumes "list_all (tileBand x y) (drawn c)" "x \<in> \<int>" "y \<in> \<int>"
    "cx = x + 16" "y + 26 \<le> by" "by \<le> y + 28"
  shows "list_all (tileBand x y) (drawn (drawHairFront g c cx by))"
  using assms unfolding drawHairFront_def Let_def
  by (auto intro!: tile_pixel tile_pixelRect)

lemma drawHairBack_tile:
  assumes "list_all (tileBand x y) (drawn c)" "x \<in> \<int>" "y \<in> \<int>"
    "cx = x + 16" "y + 26 \<le> by" "by \<le> y + 28"
  shows "list_all (tileBand x y) (drawn (drawHairBack g c cx by))"
  using assms unfolding drawHairBack_def Let_def
  by (auto intro!: tile_pixel tile_pixelRect)

lemma drawHairSide_tile:
  assumes "list_all (tileBand x y) (drawn c)" "x \<in> \<int>" "y \<in> \<int>"
    "cx = x + 16" "y + 26 \<le> by" "by \<le> y + 28"
  shows "list_all (tileBand x y) (drawn (drawHairSide g c cx by d))"
  using assms unfolding drawHairSide_def Let_def
  by (auto intro!: tile_pixel tile_pixelRect)

lemma drawArms_tile:
  assumes "list_all (tileBand x y) (drawn c)" "x \<in> \<int>" "y \<in> \<int>"
    "cx = x + 16" "y + 26 \<le> by" "by \<le> y + 28"
  shows "list_all (tileBand x y) (drawn (drawArms g c cx by d a f))"
proof -
  define sw where "sw = (if a = ''walk'' \<or> a = ''run'' then
               (let swingAmount = (if a = ''run'' then 3 else 2)
                in sin ((real_of_int f / 6) * pi * 2) * swingAmount)
             else 0)"
  define t where "t = sin ((real_of_int f / 6) * pi * 2)"
  have t: "-1 \<le> t" "t \<le> 1"
    unfolding t_def by simp_all
  have "sw = (if a = ''walk'' \<or> a = ''run'' then t * (if a = ''run'' then 3 else 2) else 0)"
    unfolding sw_def t_def Let_def by simp
  with t have sw: "-3 \<le> sw" "sw \<le> 3"
    by (auto split: if_splits)
  have eq: "drawArms g c cx by d a f =
    (if d = ''left'' then
       drawPixelRect (drawPixelRect c (cx + 4) (by - 16 + sw) 3 6 (shirt (colors g)))
         (cx + 4) (by - 16 + 5 + sw) 3 2 (skin (colors g))
     else if d = ''right'' then
       drawPixelRect (drawPixelRect c (cx - 7) (by - 16 - sw) 3 6 (shirt (colors g)))
         (cx - 7) (by - 16 + 5 - sw) 3 2 (skin (colors g))
     else c)"
    unfolding drawArms_def sw_def Let_def by simp
  show ?thesis
    using assms sw unfolding eq
    by (auto intro!: tile_pixelRect)
qed


lemmas part_tile = drawLegs_tile drawBody_tile drawArms_tile drawHead_tile drawFace_tile
  drawFaceSide_tile drawHairFront_tile drawHairBack_tile drawHairSide_tile

lemma characterOps_tile:
  assumes "x \<in> \<int>" "y \<in> \<int>" "-2 \<le> off" "off \<le> 0" "frameWidth g = 32" "frameHeight g = 32"
  shows "list_all (tileBand x y) (characterOps g x y d a f off)"
proof -
  obtain p where p: "calculateLegPositions a f = Inr p"
    using calculateLegPositions_Inr by blast
  note b = legs_bounds [OF p]
  have c0: "list_all (tileBand x y) (drawn new_ctx)" by (simp add: new_ctx_def)
  have cx: "x + frameWidth g / 2 = x + 16" using assms by simp
  have lo: "y + 26 \<le> y + frameHeight g - 4 + off" and hi: "y + frameHeight g - 4 + off \<le> y + 28"
    using assms by simp_all
  consider "d = ''up''" | "d = ''down''" | "d \<noteq> ''up''" "d \<noteq> ''down''" by blast
  then show ?thesis
  proof cases
    case 1
    then show ?thesis
      unfolding characterOps_def drawCharacter_def Let_def p
      by (simp del: add_diff_eq diff_add_eq) (intro part_tile c0 assms(1,2) cx lo hi b)
  next
    case 2
    then show ?thesis
      unfolding characterOps_def drawCharacter_def Let_def p
      by (simp del: add_diff_eq diff_add_eq) (intro part_tile c0 assms(1,2) cx lo hi b)
  next
    case 3
    then show ?thesis
      unfolding characterOps_def drawCharacter_def Let_def p
      by (simp del: add_diff_eq diff_add_eq) (intro part_tile c0 assms(1,2) cx lo hi b)
  qed
qed

lemma sheetCalls_on_grid:
  "list_all (\<lambda>k. call_x k \<in> \<int> \<and> call_y k \<in> \<int> \<and> -2 \<le> call_offsetY k \<and> call_offsetY k \<le> 0)
     (idleCalls new_SpriteGenerator @ walkCalls new_SpriteGenerator @ runCalls new_SpriteGenerator)"
  by (simp add: idleCalls_def walkCalls_def runCalls_def directions_def upto_0_3 upto_0_5
        Let_def new_SpriteGenerator_def)

lemma sheet_frames_in_tiles:
  "list_all (\<lambda>k. list_all (tileBand (call_x k) (call_y k)) (callOps new_SpriteGenerator k))
     (idleCalls new_SpriteGenerator @ walkCalls new_SpriteGenerator @ runCalls new_SpriteGenerator)"
proof -
  have "list_all (tileBand (call_x k) (call_y k)) (callOps new_SpriteGenerator k)"
    if "call_x k \<in> \<int> \<and> call_y k \<in> \<int> \<and> -2 \<le> call_offsetY k \<and> call_offsetY k \<le> 0" for k
    unfolding callOps_def using that
    by (intro characterOps_tile) (simp_all add: new_SpriteGenerator_def)
  with sheetCalls_on_grid show ?thesis
    unfolding list_all_iff by blast
qed

lemma walk_down_hair_above_tile:
  "hd (walkCalls new_SpriteGenerator) =
     \<lparr>call_x = 0, call_y = 128, call_direction = ''down'', call_action = ''walk'',
      call_frame = 0, call_offsetY = 0\<rparr> \<and>
   FillRect 12 127 8 1 ''#4a3728'' \<in> set (callOps new_SpriteGenerator (hd (walkCalls new_SpriteGenerator)))"
proof -
  have h: "hd (walkCalls new_SpriteGenerator) =
     \<lparr>call_x = 0, call_y = 128, call_direction = ''down'', call_action = ''walk'',
      call_frame = 0, call_offsetY = 0\<rparr>"
    by (simp add: walkCalls_def directions_def upto_0_5 Let_def new_SpriteGenerator_def)
  have l: "calculateLegPositions ''walk'' 0 = Inr \<lparr>leftX = -2, rightX = 2, leftY = 0, rightY = 0\<rparr>"
    by (simp add: calculateLegPositions_walk walkCycle_def)
  have "FillRect 12 127 8 1 ''#4a3728'' \<in> set (characterOps new_SpriteGenerator 0 128 ''down'' ''walk'' 0 0)"
    by (simp add: characterOps_def l drawCharacter_def Let_def drawLegs_def drawBody_def
          drawHead_def drawFace_def drawHairFront_def drawPixelRect_eq drawPixel_eq new_ctx_def
          new_SpriteGenerator_def)
  with h show ?thesis by (simp add: callOps_def)
qed

text \<open>
  Claim C6. The generated sheet is \<open>frameWidth * framesPerRow\<close> wide and
  \<open>frameHeight * totalRows\<close> high, 192 by 384 for the constructor's values. After the
  clearing of the canvas its content is, in this order, the commands of one frame for each
  cell of the grid, none of them empty: rows 0 to 3 idle, rows 4 to 7 walk, rows 8 to 11
  run, each group in the order down, left, right, up, with 4 frames in an idle row and 6 in
  a walk or run row, frame \<open>f\<close> of row \<open>r\<close> drawn from the tile origin
  \<open>(f * frameWidth, r * frameHeight)\<close>. The default clip table gives every clip the same
  row and the same frame count. With the constructor's values the commands of a frame lie
  within the columns of its tile and between three pixel rows above the top edge of the
  tile and its bottom edge: the top of the hair is painted above the tile, for frame 0 of
  walk-down in pixel row 127, the last pixel row of row 3.
\<close>

theorem C6_sheet_layout:
  "\<not> isl (generateSpritesheet g) \<and>
   canvas_width (projr (generateSpritesheet g)) = frameWidth g * framesPerRow g \<and>
   canvas_height (projr (generateSpritesheet g)) = frameHeight g * totalRows g \<and>
   canvas_width (projr (generateSpritesheet new_SpriteGenerator)) = 192 \<and>
   canvas_height (projr (generateSpritesheet new_SpriteGenerator)) = 384 \<and>
   drawn (canvas_ctx (projr (generateSpritesheet g))) =
     ClearRect 0 0 (frameWidth g * framesPerRow g) (frameHeight g * totalRows g) #
     concat (map (callOps g) (idleCalls g @ walkCalls g @ runCalls g)) \<and>
   list_all (\<lambda>k. callOps g k \<noteq> []) (idleCalls g @ walkCalls g @ runCalls g) \<and>
   map (\<lambda>k. (call_y k, call_action k, call_direction k, call_frame k, call_x k))
       (idleCalls g @ walkCalls g @ runCalls g) =
     concat (map (\<lambda>(row, action, direction, n).
                    map (\<lambda>f. (real_of_int row * frameHeight g, action, direction, f,
                               real_of_int f * frameWidth g)) [0..n - 1])
                 spec_layout) \<and>
   map (\<lambda>a. (a ''row'', a ''action'', a ''direction'', a ''frameCount''))
       (animations DEFAULT_ANIMATION_CONFIG) =
     map (\<lambda>(row, action, direction, n).
            (Some (Num row), Some (Str action), Some (Str direction), Some (Num n)))
         spec_layout \<and>
   list_all (\<lambda>k. list_all (tileBand (call_x k) (call_y k)) (callOps new_SpriteGenerator k))
     (idleCalls new_SpriteGenerator @ walkCalls new_SpriteGenerator @
      runCalls new_SpriteGenerator) \<and>
   hd (walkCalls new_SpriteGenerator) =
     \<lparr>call_x = 0, call_y = 128, call_direction = ''down'', call_action = ''walk'',
      call_frame = 0, call_offsetY = 0\<rparr> \<and>
   FillRect 12 127 8 1 ''#4a3728''
     \<in> set (callOps new_SpriteGenerator (hd (walkCalls new_SpriteGenerator)))"
proof -
  have size: "canvas_width (projr (generateSpritesheet new_SpriteGenerator)) = 192"
    "canvas_height (projr (generateSpritesheet new_SpriteGenerator)) = 384"
    unfolding generateSpritesheet_eq by (simp_all add: new_SpriteGenerator_def)
  have ok: "\<not> isl (generateSpritesheet g)"
    "canvas_width (projr (generateSpritesheet g)) = frameWidth g * framesPerRow g"
    "canvas_height (projr (generateSpritesheet g)) = frameHeight g * totalRows g"
    unfolding generateSpritesheet_eq by simp_all
  have ne: "list_all (\<lambda>k. callOps g k \<noteq> []) (idleCalls g @ walkCalls g @ runCalls g)"
    unfolding list_all_iff by (simp add: callOps_def characterOps_nonempty)
  show ?thesis
    by (intro conjI ok size sheet_content ne sheet_calls_layout default_config_layout
          sheet_frames_in_tiles walk_down_hair_above_tile [THEN conjunct1]
          walk_down_hair_above_tile [THEN conjunct2])
qed

theorem C6_sheet_layout_witness:
  "length (drawn (canvas_ctx (projr (generateSpritesheet new_SpriteGenerator)))) =
     1 + length (concat (map (callOps new_SpriteGenerator)
           (idleCalls new_SpriteGenerator @ walkCalls new_SpriteGenerator @
            runCalls new_SpriteGenerator))) \<and>
   length (idleCalls new_SpriteGenerator @ walkCalls new_SpriteGenerator @
           runCalls new_SpriteGenerator) = 64 \<and>
   hd (drawn (canvas_ctx (projr (generateSpritesheet new_SpriteGenerator)))) = ClearRect 0 0 192 384"
proof -
  note t = C6_sheet_layout [of new_SpriteGenerator]
  have c: "drawn (canvas_ctx (projr (generateSpritesheet new_SpriteGenerator))) =
     ClearRect 0 0 (frameWidth new_SpriteGenerator * framesPerRow new_SpriteGenerator)
       (frameHeight new_SpriteGenerator * totalRows new_SpriteGenerator) #
     concat (map (callOps new_SpriteGenerator)
       (idleCalls new_SpriteGenerator @ walkCalls new_SpriteGenerator @
        runCalls new_SpriteGenerator))"
    using t by blast
  have n: "length (idleCalls new_SpriteGenerator @ walkCalls new_SpriteGenerator @
           runCalls new_SpriteGenerator) = 64"
    by (simp add: idleCalls_def walkCalls_def runCalls_def directions_def upto_0_3 upto_0_5)
  have h: "hd (drawn (canvas_ctx (projr (generateSpritesheet new_SpriteGenerator))))
             = ClearRect 0 0 192 384"
    unfolding c by (simp add: new_SpriteGenerator_def)
  show ?thesis using n h unfolding c by simp
qed

end
